theory Spec2Isabelle
  imports Complex_Main
begin

section \<open>Data model (src/stores/motionStore.ts)\<close>

text \<open>
  \<^verbatim>\<open>MotionData\<close>: one motion reading. The source's fields \<^verbatim>\<open>type\<close>, \<^verbatim>\<open>x\<close>, \<^verbatim>\<open>y\<close>,
  \<^verbatim>\<open>z\<close> are named \<open>kind\<close>, \<open>axis_x\<close>, \<open>axis_y\<close>, \<open>axis_z\<close> here, so that \<open>x\<close>, \<open>y\<close>, \<open>z\<close>
  stay usable as variables. The optional fields \<^verbatim>\<open>rotationX?\<close>, \<^verbatim>\<open>rotationY?\<close>, \<^verbatim>\<open>rotationZ?\<close>
  are options: \<open>None\<close> is an absent field. No arithmetic is done on the axis values by the
  modelled code (they are only copied), so they are plain numbers.
\<close>

datatype sensor_type = accelerometer | gyroscope

record MotionData =
  kind :: sensor_type
  timestamp :: int
  axis_x :: real
  axis_y :: real
  axis_z :: real
  rotationX :: "real option"
  rotationY :: "real option"
  rotationZ :: "real option"

text \<open>The data part of \<^verbatim>\<open>MotionState\<close>; its function fields are the operations below.\<close>

record MotionState =
  isRecording :: bool
  recordedData :: "MotionData list"
  currentDataIndex :: int

section \<open>The store's operations\<close>

text \<open>
  Each action reads the state with \<^verbatim>\<open>get()\<close> and merges a partial state with \<^verbatim>\<open>set\<close>;
  here it takes the state and returns the new one. No action has a \<^verbatim>\<open>throw\<close>, so none has an
  error branch. The \<^verbatim>\<open>console.log\<close> calls and the write-through of \<^verbatim>\<open>persist\<close> do not
  change the state and are left out.
\<close>

definition initial_state :: MotionState where
  "initial_state = \<lparr>isRecording = False, recordedData = [], currentDataIndex = 0\<rparr>"

definition startRecording :: "MotionState \<Rightarrow> MotionState" where
  "startRecording s = s\<lparr>isRecording := True, recordedData := [], currentDataIndex := 0\<rparr>"

definition stopRecording :: "MotionState \<Rightarrow> MotionState" where
  "stopRecording s = s\<lparr>isRecording := False\<rparr>"

definition addDataPoint :: "MotionData \<Rightarrow> MotionState \<Rightarrow> MotionState" where
  "addDataPoint dataPoint s =
     (if \<not> isRecording s then s
      else s\<lparr>recordedData := recordedData s @ [dataPoint],
              currentDataIndex := int (length (recordedData s))\<rparr>)"

definition clearRecordedData :: "MotionState \<Rightarrow> MotionState" where
  "clearRecordedData s = s\<lparr>recordedData := [], currentDataIndex := 0, isRecording := False\<rparr>"

definition nextDataPoint :: "MotionState \<Rightarrow> MotionState" where
  "nextDataPoint s =
     (let newIndex = min (currentDataIndex s + 1) (max 0 (int (length (recordedData s)) - 1))
      in s\<lparr>currentDataIndex := newIndex\<rparr>)"

definition previousDataPoint :: "MotionState \<Rightarrow> MotionState" where
  "previousDataPoint s =
     (let newIndex = max 0 (currentDataIndex s - 1)
      in s\<lparr>currentDataIndex := newIndex\<rparr>)"

text \<open>The six actions as one step function, and the states the store can reach with them.\<close>

datatype store_op =
  StartRecording | StopRecording | AddDataPoint MotionData
  | ClearRecordedData | NextDataPoint | PreviousDataPoint

fun apply_op :: "store_op \<Rightarrow> MotionState \<Rightarrow> MotionState" where
  "apply_op StartRecording s = startRecording s"
| "apply_op StopRecording s = stopRecording s"
| "apply_op (AddDataPoint d) s = addDataPoint d s"
| "apply_op ClearRecordedData s = clearRecordedData s"
| "apply_op NextDataPoint s = nextDataPoint s"
| "apply_op PreviousDataPoint s = previousDataPoint s"

definition run_ops :: "store_op list \<Rightarrow> MotionState \<Rightarrow> MotionState" where
  "run_ops ops s = fold apply_op ops s"

inductive reachable :: "MotionState \<Rightarrow> bool" where
  reachable_init: "reachable initial_state"
| reachable_step: "reachable s \<Longrightarrow> reachable (apply_op a s)"

text \<open>The cursor invariant: \<^verbatim>\<open>0 <= currentDataIndex <= max(0, recordedData.length - 1)\<close>.\<close>

definition cursor_in_bounds :: "MotionState \<Rightarrow> bool" where
  "cursor_in_bounds s \<longleftrightarrow>
     0 \<le> currentDataIndex s \<and> currentDataIndex s \<le> max 0 (int (length (recordedData s)) - 1)"

text \<open>The cursor designates a sample of the log: \<^verbatim>\<open>0 <= currentDataIndex <= recordedData.length - 1\<close>.\<close>

definition cursor_in_log :: "MotionState \<Rightarrow> bool" where
  "cursor_in_log s \<longleftrightarrow>
     0 \<le> currentDataIndex s \<and> currentDataIndex s \<le> int (length (recordedData s)) - 1"

text \<open>Sample values used by the concrete evaluations.\<close>

definition sample_a :: MotionData where
  "sample_a = \<lparr>kind = accelerometer, timestamp = 1000, axis_x = 1, axis_y = 2, axis_z = 3,
     rotationX = Some 2, rotationY = Some 1, rotationZ = Some 3\<rparr>"

definition sample_b :: MotionData where
  "sample_b = \<lparr>kind = accelerometer, timestamp = 1100, axis_x = 4, axis_y = 5, axis_z = 6,
     rotationX = Some 5, rotationY = Some 4, rotationZ = Some 6\<rparr>"

section \<open>JavaScript values the model needs\<close>

text \<open>
  A frame handed to the renderer is \<^verbatim>\<open>null\<close>, \<^verbatim>\<open>undefined\<close> or a sample. Reading an array
  outside its range does not throw in JavaScript: it gives \<^verbatim>\<open>undefined\<close>. The remainder
  \<^verbatim>\<open>a % b\<close> truncates towards zero and has the sign of \<^verbatim>\<open>a\<close>; with \<^verbatim>\<open>b = 0\<close> it is
  \<^verbatim>\<open>NaN\<close>, a case the callers exclude before they divide.
\<close>

datatype 'a js_value = Null | Undefined | Value 'a

definition js_index :: "'a list \<Rightarrow> int \<Rightarrow> 'a js_value" where
  "js_index xs i = (if 0 \<le> i \<and> i < int (length xs) then Value (xs ! nat i) else Undefined)"

definition js_rem :: "int \<Rightarrow> int \<Rightarrow> int" where
  "js_rem a b = sgn a * (\<bar>a\<bar> mod \<bar>b\<bar>)"

section \<open>Playback in src/App.js\<close>

text \<open>
  The component's state hooks, its \<^verbatim>\<open>playbackIntervalRef\<close>, and the runtime's table of
  active intervals. \<^verbatim>\<open>recordedData\<close> and \<^verbatim>\<open>isRecording\<close> carry the suffix \<open>_app\<close>: the
  store has fields of the same names. An interval is its id together with the
  \<^verbatim>\<open>recordedData\<close> its callback closed over when \<^verbatim>\<open>handleStartPlayback\<close> created it.
  \<^verbatim>\<open>setInterval\<close> returns an id that is positive and not in use.
\<close>

record App =
  recordedData_app :: "MotionData list"
  isPlaying :: bool
  currentFrameIndex :: int
  isRecording_app :: bool
  playbackIntervalRef :: "nat option"
  intervals :: "(nat \<times> MotionData list) list"

definition initial_app :: App where
  "initial_app = \<lparr>recordedData_app = [], isPlaying = False, currentFrameIndex = 0,
     isRecording_app = False, playbackIntervalRef = None, intervals = []\<rparr>"

definition fresh_interval_id :: "(nat \<times> 'a) list \<Rightarrow> nat" where
  "fresh_interval_id ts = Suc (fold max (map fst ts) 0)"

definition clearInterval :: "nat \<Rightarrow> App \<Rightarrow> App" where
  "clearInterval h s = s\<lparr>intervals := filter (\<lambda>t. fst t \<noteq> h) (intervals s)\<rparr>"

text \<open>
  \<^verbatim>\<open>if (playbackIntervalRef.current) { clearInterval(...); playbackIntervalRef.current = null; }\<close>
  The test is JavaScript truthiness: \<^verbatim>\<open>null\<close> and the number 0 both fail it.
\<close>

definition clearPlaybackInterval :: "App \<Rightarrow> App" where
  "clearPlaybackInterval s =
     (case playbackIntervalRef s of
        None \<Rightarrow> s
      | Some h \<Rightarrow> if h = 0 then s else (clearInterval h s)\<lparr>playbackIntervalRef := None\<rparr>)"

text \<open>The arrow function given to \<^verbatim>\<open>setInterval\<close>, closed over \<^verbatim>\<open>recordedData\<close>.\<close>

definition interval_callback :: "MotionData list \<Rightarrow> App \<Rightarrow> App" where
  "interval_callback rd s =
     (if currentFrameIndex s \<ge> int (length rd) - 1
      then (clearPlaybackInterval s)\<lparr>isPlaying := False, currentFrameIndex := 0\<rparr>
      else s\<lparr>currentFrameIndex := currentFrameIndex s + 1\<rparr>)"

definition handleStartPlayback :: "App \<Rightarrow> App" where
  "handleStartPlayback s =
     (if length (recordedData_app s) = 0 then s
      else
        let s1 = s\<lparr>isPlaying := True, currentFrameIndex := 0\<rparr>;
            s2 = clearPlaybackInterval s1;
            h = fresh_interval_id (intervals s2)
        in s2\<lparr>intervals := intervals s2 @ [(h, recordedData_app s)],
               playbackIntervalRef := Some h\<rparr>)"

text \<open>One firing of interval \<open>h\<close>. A cleared interval does not fire.\<close>

definition tick :: "nat \<Rightarrow> App \<Rightarrow> App" where
  "tick h s = (case map_of (intervals s) h of None \<Rightarrow> s | Some rd \<Rightarrow> interval_callback rd s)"

definition handleStopPlayback :: "App \<Rightarrow> App" where
  "handleStopPlayback s = clearPlaybackInterval (s\<lparr>isPlaying := False\<rparr>)"

definition getCurrentMotionData :: "App \<Rightarrow> MotionData js_value" where
  "getCurrentMotionData s =
     (if length (recordedData_app s) = 0 \<or> \<not> isPlaying s then Null
      else js_index (recordedData_app s) (currentFrameIndex s))"

section \<open>Playback in the Visualize screen (src/unnamed/part_002)\<close>

text \<open>
  The screen reads the store and keeps \<^verbatim>\<open>isPlaying\<close> as local state (suffix \<open>_vs\<close>). Its
  effect, with dependencies \<^verbatim>\<open>[isPlaying, recordedData.length]\<close>, keeps an interval
  registered exactly while \<^verbatim>\<open>isPlaying && recordedData.length > 0\<close>; React runs the effect
  again, clearing the interval and making a new one, only when a dependency changes. Each
  firing of the interval calls \<^verbatim>\<open>nextDataPoint()\<close>.
\<close>

record VisualizeScreen =
  store :: MotionState
  isPlaying_vs :: bool

definition effect_deps :: "VisualizeScreen \<Rightarrow> bool \<times> nat" where
  "effect_deps v = (isPlaying_vs v, length (recordedData (store v)))"

definition playbackInterval :: "VisualizeScreen \<Rightarrow> bool" where
  "playbackInterval v \<longleftrightarrow> isPlaying_vs v \<and> length (recordedData (store v)) > 0"

definition playback_tick :: "VisualizeScreen \<Rightarrow> VisualizeScreen" where
  "playback_tick v = (if playbackInterval v then v\<lparr>store := nextDataPoint (store v)\<rparr> else v)"

definition currentMotionData :: "VisualizeScreen \<Rightarrow> MotionData js_value" where
  "currentMotionData v =
     (if length (recordedData (store v)) > 0
      then js_index (recordedData (store v))
             (js_rem (currentDataIndex (store v)) (int (length (recordedData (store v)))))
      else Null)"

section \<open>The sensor listeners (src/components/MotionTracker.tsx and MotionTracker.js)\<close>

text \<open>
  A measurement is what the sensor hands to a listener: \<^verbatim>\<open>{x, y, z}\<close>. Each listener is
  modelled by the object literal it builds and by what it passes to \<^verbatim>\<open>onDataPoint\<close>
  (\<open>None\<close>: nothing is passed). The arguments are the \<^verbatim>\<open>isRecording\<close> the listener closed
  over, the clock reading and the measurement; in MotionTracker.js also the current values
  of the animated \<^verbatim>\<open>motionX\<close>, \<^verbatim>\<open>motionY\<close>, \<^verbatim>\<open>motionZ\<close>. There the literal ends with the
  spread \<^verbatim>\<open>...accelData\<close> (or \<^verbatim>\<open>...gyroData\<close>), which supplies the axis values; a measurement
  has no rotation field, so the spread leaves those as the literal set them.
\<close>

record Measurement =
  mx :: real
  my :: real
  mz :: real

definition accel_dataPoint_tsx :: "int \<Rightarrow> Measurement \<Rightarrow> MotionData" where
  "accel_dataPoint_tsx now data =
     \<lparr>kind = accelerometer, timestamp = now, axis_x = mx data, axis_y = my data, axis_z = mz data,
      rotationX = Some (my data), rotationY = Some (mx data), rotationZ = Some (mz data)\<rparr>"

definition accelListener_tsx :: "bool \<Rightarrow> int \<Rightarrow> Measurement \<Rightarrow> MotionData option" where
  "accelListener_tsx recording now data =
     (if recording then Some (accel_dataPoint_tsx now data) else None)"

definition gyro_dataPoint_tsx :: "int \<Rightarrow> Measurement \<Rightarrow> MotionData" where
  "gyro_dataPoint_tsx now data =
     \<lparr>kind = gyroscope, timestamp = now, axis_x = mx data, axis_y = my data, axis_z = mz data,
      rotationX = Some (mx data), rotationY = Some (my data), rotationZ = Some (mz data)\<rparr>"

definition gyroListener_tsx :: "bool \<Rightarrow> int \<Rightarrow> Measurement \<Rightarrow> MotionData option" where
  "gyroListener_tsx recording now data =
     (if recording then Some (gyro_dataPoint_tsx now data) else None)"

definition accelerometer_dataPoint_js :: "int \<Rightarrow> Measurement \<Rightarrow> Measurement \<Rightarrow> MotionData" where
  "accelerometer_dataPoint_js now motion accelData =
     \<lparr>kind = accelerometer, timestamp = now,
      axis_x = mx accelData, axis_y = my accelData, axis_z = mz accelData,
      rotationX = Some (my motion), rotationY = Some (mx motion), rotationZ = Some (mz motion)\<rparr>"

definition accelerometerSub_js :: "bool \<Rightarrow> int \<Rightarrow> Measurement \<Rightarrow> Measurement \<Rightarrow> MotionData option" where
  "accelerometerSub_js recording now motion accelData =
     (if recording then Some (accelerometer_dataPoint_js now motion accelData) else None)"

definition gyroscope_dataPoint_js :: "int \<Rightarrow> Measurement \<Rightarrow> MotionData" where
  "gyroscope_dataPoint_js now gyroData =
     \<lparr>kind = gyroscope, timestamp = now,
      axis_x = mx gyroData, axis_y = my gyroData, axis_z = mz gyroData,
      rotationX = None, rotationY = None, rotationZ = None\<rparr>"

text \<open>The gyroscope listener of MotionTracker.js builds its data point and drops it.\<close>

definition gyroscopeSub_js :: "bool \<Rightarrow> int \<Rightarrow> Measurement \<Rightarrow> MotionData option" where
  "gyroscopeSub_js recording now gyroData = None"

section \<open>Concrete states for the evaluations\<close>

definition reading :: Measurement where
  "reading = \<lparr>mx = 1, my = 2, mz = 3\<rparr>"

definition five_samples :: "MotionData list" where
  "five_samples = [sample_a, sample_b, sample_a, sample_b, sample_a]"

definition app_loaded :: App where
  "app_loaded = initial_app\<lparr>recordedData_app := five_samples\<rparr>"

definition app_started :: App where
  "app_started = handleStartPlayback app_loaded"

definition app_at_last :: App where
  "app_at_last = (tick 1 ^^ 4) app_started"

definition app_idle_with_data :: App where
  "app_idle_with_data = initial_app\<lparr>recordedData_app := [sample_a]\<rparr>"

definition app_playing_one :: App where
  "app_playing_one = handleStartPlayback app_idle_with_data"

definition store_two :: MotionState where
  "store_two = addDataPoint sample_b (addDataPoint sample_a (startRecording initial_state))"

definition screen_at_last :: VisualizeScreen where
  "screen_at_last = \<lparr>store = stopRecording store_two, isPlaying_vs = True\<rparr>"

section \<open>Recording: discarded and accepted samples\<close>

lemma addDataPoint_idle: "\<not> isRecording s \<Longrightarrow> addDataPoint d s = s"
  by (simp add: addDataPoint_def)

lemma fold_addDataPoint_idle: "\<not> isRecording s \<Longrightarrow> fold addDataPoint ds s = s"
  by (induction ds) (simp_all add: addDataPoint_idle)

text \<open>
  C1. When \<^verbatim>\<open>isRecording\<close> is false, \<^verbatim>\<open>addDataPoint(sample)\<close> returns the state it was given:
  \<^verbatim>\<open>recordedData\<close>, \<^verbatim>\<open>currentDataIndex\<close> and \<^verbatim>\<open>isRecording\<close> are all unchanged. Hence any
  sequence of such calls leaves the state, and so the length of the log, unchanged. The
  result is an ordinary state: the early \<^verbatim>\<open>return\<close> is not an error.
\<close>

theorem addDataPoint_not_recording_noop:
  assumes "\<not> isRecording s"
  shows "addDataPoint d s = s
    \<and> recordedData (addDataPoint d s) = recordedData s
    \<and> currentDataIndex (addDataPoint d s) = currentDataIndex s
    \<and> isRecording (addDataPoint d s) = isRecording s
    \<and> fold addDataPoint ds s = s
    \<and> length (recordedData (fold addDataPoint ds s)) = length (recordedData s)"
  using assms by (simp add: addDataPoint_idle fold_addDataPoint_idle)

theorem addDataPoint_not_recording_noop_witness:
  "\<not> isRecording initial_state
    \<and> addDataPoint sample_a initial_state = initial_state
    \<and> fold addDataPoint [sample_a, sample_b, sample_a] initial_state = initial_state
    \<and> length (recordedData (fold addDataPoint [sample_a, sample_b, sample_a] initial_state)) = 0"
proof -
  have idle: "\<not> isRecording initial_state"
    by (simp add: initial_state_def)
  have len: "length (recordedData initial_state) = 0"
    by (simp add: initial_state_def)
  from addDataPoint_not_recording_noop [OF idle, of sample_a "[sample_a, sample_b, sample_a]"]
  show ?thesis using idle len by presburger
qed

text \<open>
  C2. From every prior state, also one that is already recording, \<^verbatim>\<open>startRecording()\<close> gives a
  state with an empty \<^verbatim>\<open>recordedData\<close>, \<^verbatim>\<open>currentDataIndex\<close> 0 and \<^verbatim>\<open>isRecording\<close> true:
  a call while recording restarts the session with the earlier data cleared, and the call
  is idempotent.
\<close>

theorem startRecording_resets:
  "recordedData (startRecording s) = []
    \<and> currentDataIndex (startRecording s) = 0
    \<and> isRecording (startRecording s) = True
    \<and> startRecording s = \<lparr>isRecording = True, recordedData = [], currentDataIndex = 0\<rparr>
    \<and> startRecording (startRecording s) = startRecording s
    \<and> recordedData (startRecording (addDataPoint d (startRecording s))) = []"
  by (simp add: startRecording_def)

text \<open>
  C10. An accepted \<^verbatim>\<open>addDataPoint\<close> (one made while \<^verbatim>\<open>isRecording\<close> is true) appends the
  sample and sets \<^verbatim>\<open>currentDataIndex\<close> to the length of the log before the append, which is
  the index of the new sample, whatever the cursor was before: a position reached by
  \<^verbatim>\<open>nextDataPoint\<close> or \<^verbatim>\<open>previousDataPoint\<close> is overwritten.
\<close>

theorem addDataPoint_recording_cursor:
  assumes "isRecording s"
  shows "recordedData (addDataPoint d s) = recordedData s @ [d]
    \<and> currentDataIndex (addDataPoint d s) = int (length (recordedData s))
    \<and> currentDataIndex (addDataPoint d s) = int (length (recordedData (addDataPoint d s))) - 1
    \<and> recordedData (addDataPoint d s) ! nat (currentDataIndex (addDataPoint d s)) = d
    \<and> currentDataIndex (addDataPoint d (previousDataPoint s)) = int (length (recordedData s))
    \<and> currentDataIndex (addDataPoint d (nextDataPoint s)) = int (length (recordedData s))
    \<and> isRecording (addDataPoint d s)"
  using assms by (simp add: addDataPoint_def previousDataPoint_def nextDataPoint_def Let_def)

theorem addDataPoint_recording_cursor_witness:
  "isRecording (addDataPoint sample_a (startRecording initial_state))
    \<and> currentDataIndex (addDataPoint sample_b
         (previousDataPoint (addDataPoint sample_a (startRecording initial_state)))) = 1
    \<and> recordedData (addDataPoint sample_b (addDataPoint sample_a (startRecording initial_state)))
        = [sample_a, sample_b]"
proof -
  have rec: "isRecording (addDataPoint sample_a (startRecording initial_state))"
    by (simp add: addDataPoint_def startRecording_def)
  from addDataPoint_recording_cursor [OF rec, of sample_b]
  show ?thesis using rec by (simp add: addDataPoint_def startRecording_def initial_state_def)
qed

section \<open>The cursor stays in bounds\<close>

lemma startRecording_in_bounds: "cursor_in_bounds (startRecording s)"
  by (simp add: cursor_in_bounds_def startRecording_def)

lemma clearRecordedData_in_bounds: "cursor_in_bounds (clearRecordedData s)"
  by (simp add: cursor_in_bounds_def clearRecordedData_def)

lemma stopRecording_in_bounds: "cursor_in_bounds s \<Longrightarrow> cursor_in_bounds (stopRecording s)"
  by (simp add: cursor_in_bounds_def stopRecording_def)

lemma addDataPoint_in_bounds: "cursor_in_bounds s \<Longrightarrow> cursor_in_bounds (addDataPoint d s)"
  by (simp add: cursor_in_bounds_def addDataPoint_def)

lemma nextDataPoint_in_bounds: "cursor_in_bounds s \<Longrightarrow> cursor_in_bounds (nextDataPoint s)"
  by (simp add: cursor_in_bounds_def nextDataPoint_def Let_def)

lemma previousDataPoint_in_bounds: "cursor_in_bounds s \<Longrightarrow> cursor_in_bounds (previousDataPoint s)"
  by (auto simp add: cursor_in_bounds_def previousDataPoint_def Let_def)

lemma apply_op_in_bounds: "cursor_in_bounds s \<Longrightarrow> cursor_in_bounds (apply_op a s)"
  by (cases a)
    (simp_all add: startRecording_in_bounds clearRecordedData_in_bounds stopRecording_in_bounds
      addDataPoint_in_bounds nextDataPoint_in_bounds previousDataPoint_in_bounds)

lemma reachable_in_bounds: "reachable s \<Longrightarrow> cursor_in_bounds s"
proof (induction rule: reachable.induct)
  case reachable_init
  show ?case by (simp add: cursor_in_bounds_def initial_state_def)
next
  case (reachable_step s a)
  then show ?case by (simp add: apply_op_in_bounds)
qed

lemma reachable_run_ops: "reachable s \<Longrightarrow> reachable (run_ops ops s)"
  unfolding run_ops_def
proof (induction ops arbitrary: s)
  case Nil
  then show ?case by simp
next
  case (Cons a ops)
  from Cons.prems have "reachable (apply_op a s)" by (rule reachable_step)
  then show ?case using Cons.IH by simp
qed

text \<open>
  C7. Applied to a state with \<^verbatim>\<open>0 <= currentDataIndex <= max(0, recordedData.length - 1)\<close>,
  each of the six actions (\<^verbatim>\<open>startRecording\<close>, \<^verbatim>\<open>stopRecording\<close>, \<^verbatim>\<open>addDataPoint\<close>,
  \<^verbatim>\<open>clearRecordedData\<close>, \<^verbatim>\<open>nextDataPoint\<close>, \<^verbatim>\<open>previousDataPoint\<close>) gives a state that
  satisfies the same bounds, measured against the log of the new state.
\<close>

theorem store_ops_keep_cursor_in_bounds:
  assumes "cursor_in_bounds s"
  shows "cursor_in_bounds (startRecording s)
    \<and> cursor_in_bounds (stopRecording s)
    \<and> cursor_in_bounds (addDataPoint d s)
    \<and> cursor_in_bounds (clearRecordedData s)
    \<and> cursor_in_bounds (nextDataPoint s)
    \<and> cursor_in_bounds (previousDataPoint s)
    \<and> cursor_in_bounds (apply_op a s)
    \<and> 0 \<le> currentDataIndex (apply_op a s)
    \<and> currentDataIndex (apply_op a s) \<le> max 0 (int (length (recordedData (apply_op a s))) - 1)"
proof -
  have "cursor_in_bounds (apply_op a s)"
    using assms by (rule apply_op_in_bounds)
  then show ?thesis
    using assms
    by (simp add: startRecording_in_bounds clearRecordedData_in_bounds stopRecording_in_bounds
      addDataPoint_in_bounds nextDataPoint_in_bounds previousDataPoint_in_bounds)
      (simp add: cursor_in_bounds_def)
qed

theorem store_ops_keep_cursor_in_bounds_witness:
  "cursor_in_bounds store_two
    \<and> cursor_in_bounds (nextDataPoint store_two)
    \<and> cursor_in_bounds (previousDataPoint store_two)
    \<and> cursor_in_bounds (addDataPoint sample_a store_two)
    \<and> currentDataIndex (addDataPoint sample_a store_two) = 2
    \<and> currentDataIndex (nextDataPoint store_two) = 1
    \<and> currentDataIndex (previousDataPoint store_two) = 0"
proof -
  have inb: "cursor_in_bounds store_two"
    by (simp add: cursor_in_bounds_def store_two_def addDataPoint_def startRecording_def)
  have vals: "currentDataIndex (addDataPoint sample_a store_two) = 2
    \<and> currentDataIndex (nextDataPoint store_two) = 1
    \<and> currentDataIndex (previousDataPoint store_two) = 0"
    by (simp add: store_two_def addDataPoint_def startRecording_def nextDataPoint_def
      previousDataPoint_def Let_def)
  from store_ops_keep_cursor_in_bounds [OF inb, of sample_a NextDataPoint]
  show ?thesis using inb vals by blast
qed

section \<open>Navigation saturates\<close>

text \<open>
  What the two navigation actions do on any record of the state type, reachable or not.
\<close>

lemma previousDataPoint_at_first: "currentDataIndex s = 0 \<Longrightarrow> previousDataPoint s = s"
  by (simp add: previousDataPoint_def Let_def)

lemma nextDataPoint_at_final:
  "recordedData s \<noteq> [] \<Longrightarrow> currentDataIndex s = int (length (recordedData s)) - 1 \<Longrightarrow>
    nextDataPoint s = s"
  by (cases "recordedData s") (auto simp add: nextDataPoint_def Let_def)

lemma navigation_keeps_cursor_in_log:
  "cursor_in_log s \<Longrightarrow> cursor_in_log (nextDataPoint s) \<and> cursor_in_log (previousDataPoint s)"
  by (auto simp add: cursor_in_log_def nextDataPoint_def previousDataPoint_def Let_def)

text \<open>
  C3. In every state of the store (every state reached from the initial one by the six
  actions), \<^verbatim>\<open>nextDataPoint()\<close> and \<^verbatim>\<open>previousDataPoint()\<close> leave the log as it is and, when
  the log is not empty, leave \<^verbatim>\<open>currentDataIndex\<close> within \<^verbatim>\<open>[0, recordedData.length - 1]\<close>.
  \<^verbatim>\<open>previousDataPoint\<close> at index 0 and \<^verbatim>\<open>nextDataPoint\<close> at the final index return the state
  unchanged: the cursor saturates and does not wrap. On an empty log both return the
  state unchanged. Both are total: neither has a branch that throws.
\<close>

theorem navigation_saturates:
  assumes "reachable s"
  shows "recordedData (nextDataPoint s) = recordedData s
    \<and> recordedData (previousDataPoint s) = recordedData s
    \<and> (recordedData s \<noteq> [] \<longrightarrow>
          cursor_in_log s \<and> cursor_in_log (nextDataPoint s) \<and> cursor_in_log (previousDataPoint s))
    \<and> (currentDataIndex s = 0 \<longrightarrow> previousDataPoint s = s)
    \<and> (recordedData s \<noteq> [] \<and> currentDataIndex s = int (length (recordedData s)) - 1 \<longrightarrow>
          nextDataPoint s = s)
    \<and> (recordedData s = [] \<longrightarrow> nextDataPoint s = s \<and> previousDataPoint s = s)"
proof -
  from assms have inb: "cursor_in_bounds s"
    by (rule reachable_in_bounds)
  have log: "recordedData (nextDataPoint s) = recordedData s
      \<and> recordedData (previousDataPoint s) = recordedData s"
    by (simp add: nextDataPoint_def previousDataPoint_def Let_def)
  have range: "recordedData s \<noteq> [] \<longrightarrow>
      cursor_in_log s \<and> cursor_in_log (nextDataPoint s) \<and> cursor_in_log (previousDataPoint s)"
    using inb
    by (cases "recordedData s")
      (auto simp add: cursor_in_bounds_def cursor_in_log_def nextDataPoint_def
        previousDataPoint_def Let_def)
  have first: "currentDataIndex s = 0 \<longrightarrow> previousDataPoint s = s"
    by (simp add: previousDataPoint_def Let_def)
  have final: "recordedData s \<noteq> [] \<and> currentDataIndex s = int (length (recordedData s)) - 1 \<longrightarrow>
      nextDataPoint s = s"
    by (cases "recordedData s") (auto simp add: nextDataPoint_def Let_def)
  have empty: "recordedData s = [] \<longrightarrow> nextDataPoint s = s \<and> previousDataPoint s = s"
    using inb by (auto simp add: cursor_in_bounds_def nextDataPoint_def previousDataPoint_def Let_def)
  from log range first final empty show ?thesis by blast
qed

theorem navigation_saturates_witness:
  "reachable store_two
    \<and> recordedData store_two \<noteq> []
    \<and> currentDataIndex store_two = int (length (recordedData store_two)) - 1
    \<and> nextDataPoint store_two = store_two
    \<and> cursor_in_log (previousDataPoint store_two)
    \<and> reachable (previousDataPoint store_two)
    \<and> currentDataIndex (previousDataPoint store_two) = 0
    \<and> previousDataPoint (previousDataPoint store_two) = previousDataPoint store_two
    \<and> reachable initial_state
    \<and> recordedData initial_state = []
    \<and> nextDataPoint initial_state = initial_state
    \<and> previousDataPoint initial_state = initial_state"
proof -
  have "reachable (run_ops [StartRecording, AddDataPoint sample_a, AddDataPoint sample_b]
      initial_state)"
    by (rule reachable_run_ops [OF reachable_init])
  then have r2: "reachable store_two"
    by (simp add: run_ops_def store_two_def)
  from r2 have "reachable (apply_op PreviousDataPoint store_two)"
    by (rule reachable_step)
  then have r1: "reachable (previousDataPoint store_two)"
    by simp
  have two: "recordedData store_two \<noteq> []
      \<and> currentDataIndex store_two = int (length (recordedData store_two)) - 1"
    by (simp add: store_two_def addDataPoint_def startRecording_def)
  have one: "currentDataIndex (previousDataPoint store_two) = 0"
    by (simp add: store_two_def addDataPoint_def startRecording_def previousDataPoint_def Let_def)
  have none: "recordedData initial_state = []"
    by (simp add: initial_state_def)
  from navigation_saturates [OF r2] navigation_saturates [OF r1]
    navigation_saturates [OF reachable_init]
  show ?thesis using r2 r1 reachable_init two one none by metis
qed

section \<open>Playback in App.js: one pass, then stop\<close>

lemma map_of_filter_out: "map_of (filter (\<lambda>t. fst t \<noteq> h) ts) h = None"
  by (induction ts) auto

lemma fold_max_ge: "a \<le> fold max xs (a::nat)"
proof (induction xs arbitrary: a)
  case Nil
  show ?case by simp
next
  case (Cons x xs)
  have "a \<le> max x a" by simp
  also have "max x a \<le> fold max xs (max x a)" by (rule Cons.IH)
  finally show ?case by simp
qed

lemma fold_max_upper: "x \<in> set xs \<Longrightarrow> x \<le> fold max xs (a::nat)"
proof (induction xs arbitrary: a)
  case Nil
  then show ?case by simp
next
  case (Cons y ys)
  show ?case
  proof (cases "x = y")
    case True
    have "y \<le> max y a" by simp
    also have "max y a \<le> fold max ys (max y a)" by (rule fold_max_ge)
    finally show ?thesis using True by simp
  next
    case False
    with Cons.prems have "x \<in> set ys" by simp
    then show ?thesis using Cons.IH by simp
  qed
qed

lemma fresh_interval_id_unused: "map_of ts (fresh_interval_id ts) = None"
proof -
  have "fresh_interval_id ts \<notin> fst ` set ts"
  proof
    assume "fresh_interval_id ts \<in> fst ` set ts"
    then have "fresh_interval_id ts \<in> set (map fst ts)" by simp
    then have "fresh_interval_id ts \<le> fold max (map fst ts) 0" by (rule fold_max_upper)
    then show False by (simp add: fresh_interval_id_def)
  qed
  then show ?thesis by (simp add: map_of_eq_None_iff)
qed

lemma handleStartPlayback_starts:
  assumes "recordedData_app s \<noteq> []"
  shows "\<exists>h. h \<noteq> 0
    \<and> playbackIntervalRef (handleStartPlayback s) = Some h
    \<and> map_of (intervals (handleStartPlayback s)) h = Some (recordedData_app s)
    \<and> isPlaying (handleStartPlayback s)
    \<and> currentFrameIndex (handleStartPlayback s) = 0
    \<and> recordedData_app (handleStartPlayback s) = recordedData_app s"
proof -
  let ?s2 = "clearPlaybackInterval (s\<lparr>isPlaying := True, currentFrameIndex := 0\<rparr>)"
  let ?h = "fresh_interval_id (intervals ?s2)"
  have eq: "handleStartPlayback s
      = ?s2\<lparr>intervals := intervals ?s2 @ [(?h, recordedData_app s)], playbackIntervalRef := Some ?h\<rparr>"
    using assms by (simp add: handleStartPlayback_def Let_def)
  have keep: "isPlaying ?s2 \<and> currentFrameIndex ?s2 = 0 \<and> recordedData_app ?s2 = recordedData_app s"
    by (simp add: clearPlaybackInterval_def clearInterval_def split: option.split)
  have pos: "?h \<noteq> 0"
    by (simp add: fresh_interval_id_def)
  have "map_of (intervals ?s2 @ [(?h, recordedData_app s)]) ?h = Some (recordedData_app s)"
    by (simp add: map_add_def fresh_interval_id_unused)
  with eq keep pos show ?thesis by simp
qed

lemma app_started_eval:
  "app_started = \<lparr>recordedData_app = five_samples, isPlaying = True, currentFrameIndex = 0,
     isRecording_app = False, playbackIntervalRef = Some 1, intervals = [(1, five_samples)]\<rparr>"
  by (simp add: app_started_def app_loaded_def initial_app_def handleStartPlayback_def
    clearPlaybackInterval_def fresh_interval_id_def five_samples_def Let_def)

lemma app_at_last_eval:
  "app_at_last = \<lparr>recordedData_app = five_samples, isPlaying = True, currentFrameIndex = 4,
     isRecording_app = False, playbackIntervalRef = Some 1, intervals = [(1, five_samples)]\<rparr>"
  by (simp add: app_at_last_def app_started_eval tick_def interval_callback_def
    five_samples_def numeral_eq_Suc)

text \<open>
  C4. In App.js, let the interval \<open>h\<close> held by \<^verbatim>\<open>playbackIntervalRef\<close> be active, with \<open>rd\<close> the
  \<^verbatim>\<open>recordedData\<close> its callback closed over (the log at the time of \<^verbatim>\<open>handleStartPlayback\<close>),
  and let \<^verbatim>\<open>isPlaying\<close> be true. A tick at the final index
  (\<^verbatim>\<open>currentFrameIndex >= recordedData.length - 1\<close>) sets \<^verbatim>\<open>currentFrameIndex\<close> to 0, clears
  the interval and the ref, and sets \<^verbatim>\<open>isPlaying\<close> to false, so that no further tick
  changes the state: a single pass that does not loop. A tick at an earlier index adds
  exactly 1 to \<^verbatim>\<open>currentFrameIndex\<close>, and playback goes on: \<^verbatim>\<open>isPlaying\<close> stays true and the
  interval stays active.
\<close>

theorem app_tick_wraps_and_stops:
  assumes "isPlaying s"
    and "playbackIntervalRef s = Some h"
    and "h \<noteq> 0"
    and "map_of (intervals s) h = Some rd"
  shows "(currentFrameIndex s \<ge> int (length rd) - 1 \<longrightarrow>
            currentFrameIndex (tick h s) = 0
          \<and> \<not> isPlaying (tick h s)
          \<and> map_of (intervals (tick h s)) h = None
          \<and> playbackIntervalRef (tick h s) = None
          \<and> tick h (tick h s) = tick h s)
    \<and> (currentFrameIndex s < int (length rd) - 1 \<longrightarrow>
            currentFrameIndex (tick h s) = currentFrameIndex s + 1
          \<and> isPlaying (tick h s)
          \<and> map_of (intervals (tick h s)) h = Some rd
          \<and> playbackIntervalRef (tick h s) = Some h)
    \<and> recordedData_app (tick h s) = recordedData_app s"
proof -
  have last: "currentFrameIndex s \<ge> int (length rd) - 1 \<longrightarrow>
            currentFrameIndex (tick h s) = 0
          \<and> \<not> isPlaying (tick h s)
          \<and> map_of (intervals (tick h s)) h = None
          \<and> playbackIntervalRef (tick h s) = None
          \<and> tick h (tick h s) = tick h s"
  proof
    assume at_end: "currentFrameIndex s \<ge> int (length rd) - 1"
    have t: "tick h s = (clearPlaybackInterval s)\<lparr>isPlaying := False, currentFrameIndex := 0\<rparr>"
      using assms at_end by (simp add: tick_def interval_callback_def)
    have gone: "map_of (intervals (tick h s)) h = None"
      using assms by (simp add: t clearPlaybackInterval_def clearInterval_def map_of_filter_out)
    have "tick h (tick h s) = tick h s"
      using gone by (simp add: tick_def [of h "tick h s"])
    then show "currentFrameIndex (tick h s) = 0
          \<and> \<not> isPlaying (tick h s)
          \<and> map_of (intervals (tick h s)) h = None
          \<and> playbackIntervalRef (tick h s) = None
          \<and> tick h (tick h s) = tick h s"
      using gone assms by (simp add: t clearPlaybackInterval_def clearInterval_def)
  qed
  have earlier: "currentFrameIndex s < int (length rd) - 1 \<longrightarrow>
            currentFrameIndex (tick h s) = currentFrameIndex s + 1
          \<and> isPlaying (tick h s)
          \<and> map_of (intervals (tick h s)) h = Some rd
          \<and> playbackIntervalRef (tick h s) = Some h"
    using assms by (simp add: tick_def interval_callback_def)
  have log: "recordedData_app (tick h s) = recordedData_app s"
    using assms
    by (simp add: tick_def interval_callback_def clearPlaybackInterval_def clearInterval_def)
  from last earlier log show ?thesis by blast
qed

theorem app_tick_wraps_and_stops_witness:
  "isPlaying app_at_last
    \<and> playbackIntervalRef app_at_last = Some 1
    \<and> map_of (intervals app_at_last) 1 = Some five_samples
    \<and> currentFrameIndex app_at_last = 4
    \<and> currentFrameIndex app_at_last \<ge> int (length five_samples) - 1
    \<and> currentFrameIndex (tick 1 app_at_last) = 0
    \<and> \<not> isPlaying (tick 1 app_at_last)
    \<and> map_of (intervals (tick 1 app_at_last)) 1 = None
    \<and> playbackIntervalRef (tick 1 app_at_last) = None
    \<and> tick 1 (tick 1 app_at_last) = tick 1 app_at_last
    \<and> isPlaying app_started
    \<and> playbackIntervalRef app_started = Some 1
    \<and> map_of (intervals app_started) 1 = Some five_samples
    \<and> currentFrameIndex app_started = 0
    \<and> currentFrameIndex app_started < int (length five_samples) - 1
    \<and> currentFrameIndex (tick 1 app_started) = currentFrameIndex app_started + 1
    \<and> isPlaying (tick 1 app_started)
    \<and> map_of (intervals (tick 1 app_started)) 1 = Some five_samples
    \<and> playbackIntervalRef (tick 1 app_started) = Some 1"
proof -
  have playing: "isPlaying app_at_last"
    and ref: "playbackIntervalRef app_at_last = Some 1"
    and active: "map_of (intervals app_at_last) 1 = Some five_samples"
    and idx: "currentFrameIndex app_at_last = 4"
    by (simp_all add: app_at_last_eval)
  have at_end: "currentFrameIndex app_at_last \<ge> int (length five_samples) - 1"
    by (simp add: idx five_samples_def)
  have playing0: "isPlaying app_started"
    and ref0: "playbackIntervalRef app_started = Some 1"
    and active0: "map_of (intervals app_started) 1 = Some five_samples"
    and idx0: "currentFrameIndex app_started = 0"
    by (simp_all add: app_started_eval)
  have early: "currentFrameIndex app_started < int (length five_samples) - 1"
    by (simp add: idx0 five_samples_def)
  have pos: "(1::nat) \<noteq> 0"
    by simp
  have last_tick: "currentFrameIndex (tick 1 app_at_last) = 0
    \<and> \<not> isPlaying (tick 1 app_at_last)
    \<and> map_of (intervals (tick 1 app_at_last)) 1 = None
    \<and> playbackIntervalRef (tick 1 app_at_last) = None
    \<and> tick 1 (tick 1 app_at_last) = tick 1 app_at_last"
    using app_tick_wraps_and_stops [OF playing ref pos active] at_end by blast
  have first_tick: "currentFrameIndex (tick 1 app_started) = currentFrameIndex app_started + 1
    \<and> isPlaying (tick 1 app_started)
    \<and> map_of (intervals (tick 1 app_started)) 1 = Some five_samples
    \<and> playbackIntervalRef (tick 1 app_started) = Some 1"
    using app_tick_wraps_and_stops [OF playing0 ref0 pos active0] early by blast
  from last_tick first_tick
  show ?thesis using playing ref active idx at_end playing0 ref0 active0 idx0 early by blast
qed

section \<open>Stopping playback twice\<close>

lemma clearPlaybackInterval_twice:
  "clearPlaybackInterval (clearPlaybackInterval s) = clearPlaybackInterval s"
proof (cases "playbackIntervalRef s")
  case None
  then show ?thesis by (simp add: clearPlaybackInterval_def)
next
  case (Some h)
  then show ?thesis
    by (cases "h = 0") (simp_all add: clearPlaybackInterval_def clearInterval_def)
qed

lemma clearPlaybackInterval_isPlaying:
  "clearPlaybackInterval (s\<lparr>isPlaying := b\<rparr>) = (clearPlaybackInterval s)\<lparr>isPlaying := b\<rparr>"
  by (simp add: clearPlaybackInterval_def clearInterval_def split: option.split)

text \<open>
  C9. \<^verbatim>\<open>handleStopPlayback\<close> (set \<^verbatim>\<open>isPlaying\<close> to false, clear the interval) is idempotent:
  from every state, two calls in a row give the state that one call gives. So is
  \<^verbatim>\<open>clearPlaybackInterval\<close> alone. With no interval in the ref, as when none was ever
  started, the guard skips the cancellation and only \<^verbatim>\<open>isPlaying\<close> is written.
\<close>

theorem handleStopPlayback_idempotent:
  "handleStopPlayback (handleStopPlayback s) = handleStopPlayback s
    \<and> clearPlaybackInterval (clearPlaybackInterval s) = clearPlaybackInterval s
    \<and> clearPlaybackInterval (s\<lparr>playbackIntervalRef := None\<rparr>) = s\<lparr>playbackIntervalRef := None\<rparr>
    \<and> handleStopPlayback (s\<lparr>playbackIntervalRef := None\<rparr>)
        = s\<lparr>playbackIntervalRef := None, isPlaying := False\<rparr>
    \<and> handleStopPlayback initial_app = initial_app
    \<and> handleStopPlayback (handleStopPlayback initial_app) = initial_app"
proof -
  have twice: "handleStopPlayback (handleStopPlayback s) = handleStopPlayback s"
    by (simp add: handleStopPlayback_def clearPlaybackInterval_isPlaying
      clearPlaybackInterval_twice)
  have absent: "clearPlaybackInterval (s\<lparr>playbackIntervalRef := None\<rparr>) = s\<lparr>playbackIntervalRef := None\<rparr>"
    by (simp add: clearPlaybackInterval_def)
  have stop_absent: "handleStopPlayback (s\<lparr>playbackIntervalRef := None\<rparr>)
        = s\<lparr>playbackIntervalRef := None, isPlaying := False\<rparr>"
    by (simp add: handleStopPlayback_def clearPlaybackInterval_def)
  have never: "handleStopPlayback initial_app = initial_app"
    by (simp add: handleStopPlayback_def clearPlaybackInterval_def initial_app_def)
  from twice absent stop_absent never clearPlaybackInterval_twice [of s]
  show ?thesis by simp
qed

section \<open>Playback in the Visualize screen: the cursor stops at the last sample\<close>

lemma js_rem_in_range: "0 \<le> i \<Longrightarrow> i < n \<Longrightarrow> js_rem i n = i"
  by (cases "i = 0") (simp_all add: js_rem_def)

lemma screen_at_last_eval:
  "screen_at_last = \<lparr>store = \<lparr>isRecording = False, recordedData = [sample_a, sample_b],
      currentDataIndex = 1\<rparr>, isPlaying_vs = True\<rparr>"
  by (simp add: screen_at_last_def store_two_def stopRecording_def addDataPoint_def
    startRecording_def initial_state_def)

lemma nextDataPoint_log: "recordedData (nextDataPoint s) = recordedData s"
  by (simp add: nextDataPoint_def Let_def)

lemma nextDataPoint_cursor:
  "currentDataIndex (nextDataPoint s)
    = min (currentDataIndex s + 1) (max 0 (int (length (recordedData s)) - 1))"
  by (simp add: nextDataPoint_def Let_def)

lemma nextDataPoint_funpow_log: "recordedData ((nextDataPoint ^^ n) s) = recordedData s"
  by (induction n) (simp_all add: nextDataPoint_log)

lemma nextDataPoint_funpow_cursor:
  assumes "cursor_in_bounds s" and "recordedData s \<noteq> []"
  shows "currentDataIndex ((nextDataPoint ^^ n) s)
    = min (currentDataIndex s + int n) (int (length (recordedData s)) - 1)"
proof (induction n)
  case 0
  from assms show ?case
    by (cases "recordedData s") (simp_all add: cursor_in_bounds_def)
next
  case (Suc n)
  from assms(2) have "0 \<le> int (length (recordedData s)) - 1"
    by (cases "recordedData s") simp_all
  with Suc show ?case
    by (simp add: nextDataPoint_cursor nextDataPoint_funpow_log)
qed

lemma playback_tick_funpow:
  "playbackInterval v \<Longrightarrow> (playback_tick ^^ n) v = v\<lparr>store := (nextDataPoint ^^ n) (store v)\<rparr>"
proof (induction n)
  case 0
  then show ?case by simp
next
  case (Suc n)
  then have "playbackInterval (v\<lparr>store := (nextDataPoint ^^ n) (store v)\<rparr>)"
    by (simp add: playbackInterval_def nextDataPoint_funpow_log)
  with Suc show ?case
    by (simp add: playback_tick_def)
qed

text \<open>
  C5. In the Visualize screen, with a non-empty log, \<^verbatim>\<open>isPlaying\<close> true and the cursor in
  bounds: each tick calls \<^verbatim>\<open>nextDataPoint()\<close>; after any number \<open>n\<close> of ticks \<^verbatim>\<open>isPlaying\<close> is
  still true, the interval is still registered and the effect's dependencies are unchanged
  (no tick cancels the ticker or leaves the playing state). The displayed frame is
  \<^verbatim>\<open>recordedData[currentDataIndex % recordedData.length]\<close>, and since \<^verbatim>\<open>nextDataPoint\<close> clamps
  the cursor, after \<open>n\<close> ticks that is the sample at
  \<^verbatim>\<open>min(currentDataIndex + n, recordedData.length - 1)\<close>: once the cursor has reached the
  final index the displayed frame stays the last sample. It does not wrap to the start.
\<close>

theorem visualize_playback_saturates:
  assumes "isPlaying_vs v"
    and "recordedData (store v) \<noteq> []"
    and "cursor_in_bounds (store v)"
  shows "playback_tick v = v\<lparr>store := nextDataPoint (store v)\<rparr>
    \<and> isPlaying_vs ((playback_tick ^^ n) v)
    \<and> playbackInterval ((playback_tick ^^ n) v)
    \<and> effect_deps ((playback_tick ^^ n) v) = effect_deps v
    \<and> recordedData (store ((playback_tick ^^ n) v)) = recordedData (store v)
    \<and> currentDataIndex (store ((playback_tick ^^ n) v))
        = min (currentDataIndex (store v) + int n) (int (length (recordedData (store v))) - 1)
    \<and> currentMotionData ((playback_tick ^^ n) v)
        = js_index (recordedData (store v))
            (js_rem (currentDataIndex (store ((playback_tick ^^ n) v)))
              (int (length (recordedData (store v)))))
    \<and> currentMotionData ((playback_tick ^^ n) v)
        = Value (recordedData (store v)
            ! nat (min (currentDataIndex (store v) + int n) (int (length (recordedData (store v))) - 1)))
    \<and> (int (length (recordedData (store v))) - 1 \<le> currentDataIndex (store v) + int n \<longrightarrow>
          currentMotionData ((playback_tick ^^ n) v) = Value (last (recordedData (store v))))"
proof -
  let ?rd = "recordedData (store v)"
  let ?m = "min (currentDataIndex (store v) + int n) (int (length ?rd) - 1)"
  from assms have active: "playbackInterval v"
    by (simp add: playbackInterval_def)
  have one: "playback_tick v = v\<lparr>store := nextDataPoint (store v)\<rparr>"
    using active by (simp add: playback_tick_def)
  have many: "(playback_tick ^^ n) v = v\<lparr>store := (nextDataPoint ^^ n) (store v)\<rparr>"
    using active by (rule playback_tick_funpow)
  have log: "recordedData (store ((playback_tick ^^ n) v)) = ?rd"
    by (simp add: many nextDataPoint_funpow_log)
  have cur: "currentDataIndex (store ((playback_tick ^^ n) v)) = ?m"
    using assms by (simp add: many nextDataPoint_funpow_cursor)
  have playing: "isPlaying_vs ((playback_tick ^^ n) v)"
    using assms by (simp add: many)
  have still: "playbackInterval ((playback_tick ^^ n) v)"
    using playing assms by (simp add: playbackInterval_def log)
  have deps: "effect_deps ((playback_tick ^^ n) v) = effect_deps v"
    by (simp add: effect_deps_def log) (simp add: many)
  from assms have len: "0 < int (length ?rd)"
    by simp
  from assms have lo: "0 \<le> ?m"
    by (cases ?rd) (simp_all add: cursor_in_bounds_def)
  from len have hi: "?m < int (length ?rd)"
    by simp
  have computed: "currentMotionData ((playback_tick ^^ n) v)
      = js_index ?rd (js_rem (currentDataIndex (store ((playback_tick ^^ n) v))) (int (length ?rd)))"
    using assms by (simp add: currentMotionData_def log)
  from lo hi have "js_rem ?m (int (length ?rd)) = ?m"
    by (rule js_rem_in_range)
  then have frame: "currentMotionData ((playback_tick ^^ n) v) = Value (?rd ! nat ?m)"
    using lo hi assms by (simp add: currentMotionData_def log cur js_index_def)
  have stuck: "int (length ?rd) - 1 \<le> currentDataIndex (store v) + int n \<longrightarrow>
      currentMotionData ((playback_tick ^^ n) v) = Value (last ?rd)"
  proof
    assume "int (length ?rd) - 1 \<le> currentDataIndex (store v) + int n"
    then have "?m = int (length ?rd) - 1"
      by simp
    then have "nat ?m = length ?rd - 1"
      by simp
    then show "currentMotionData ((playback_tick ^^ n) v) = Value (last ?rd)"
      using assms by (simp add: frame last_conv_nth)
  qed
  from one playing still deps log cur computed frame stuck show ?thesis by blast
qed

theorem visualize_playback_saturates_witness:
  "isPlaying_vs screen_at_last
    \<and> recordedData (store screen_at_last) \<noteq> []
    \<and> cursor_in_bounds (store screen_at_last)
    \<and> int (length (recordedData (store screen_at_last))) - 1
        \<le> currentDataIndex (store screen_at_last) + int 3
    \<and> isPlaying_vs ((playback_tick ^^ 3) screen_at_last)
    \<and> playbackInterval ((playback_tick ^^ 3) screen_at_last)
    \<and> currentMotionData ((playback_tick ^^ 3) screen_at_last)
        = Value (last (recordedData (store screen_at_last)))"
proof -
  have playing: "isPlaying_vs screen_at_last"
    and log: "recordedData (store screen_at_last) \<noteq> []"
    and inb: "cursor_in_bounds (store screen_at_last)"
    by (simp_all add: screen_at_last_eval cursor_in_bounds_def)
  have late: "int (length (recordedData (store screen_at_last))) - 1
        \<le> currentDataIndex (store screen_at_last) + int 3"
    by (simp add: screen_at_last_eval)
  from visualize_playback_saturates [OF playing log inb, of 3]
  show ?thesis using playing log inb late by blast
qed

text \<open>
  C5, evaluated on a log of two different samples with the cursor on the last one, while
  playing: a wrap would display \<^verbatim>\<open>recordedData[(1 + 1) % 2]\<close>, the first sample; the screen
  displays the second sample after one tick and after two.
\<close>

theorem visualize_playback_does_not_wrap:
  "isPlaying_vs screen_at_last
    \<and> recordedData (store screen_at_last) = [sample_a, sample_b]
    \<and> currentDataIndex (store screen_at_last) = 1
    \<and> currentMotionData screen_at_last = Value sample_b
    \<and> js_index [sample_a, sample_b] (js_rem (1 + 1) 2) = Value sample_a
    \<and> sample_a \<noteq> sample_b
    \<and> currentDataIndex (store (playback_tick screen_at_last)) = 1
    \<and> currentMotionData (playback_tick screen_at_last) = Value sample_b
    \<and> currentMotionData (playback_tick (playback_tick screen_at_last)) = Value sample_b"
  by (simp add: screen_at_last_eval playback_tick_def playbackInterval_def nextDataPoint_def
    currentMotionData_def js_index_def js_rem_def sample_a_def sample_b_def Let_def)

section \<open>The frame handed to the renderer\<close>

text \<open>
  C6. The Visualize screen's \<^verbatim>\<open>currentMotionData\<close> is \<^verbatim>\<open>null\<close> exactly when the log is empty,
  and with a non-empty log and the cursor in bounds it is the sample at
  \<^verbatim>\<open>currentDataIndex\<close>. App.js's \<^verbatim>\<open>getCurrentMotionData()\<close> is \<^verbatim>\<open>null\<close> exactly when the log is
  empty or \<^verbatim>\<open>isPlaying\<close> is false; with a non-empty log, while playing and with
  \<^verbatim>\<open>currentFrameIndex\<close> inside the log, it is the sample at \<^verbatim>\<open>currentFrameIndex\<close>.
\<close>

theorem currentFrame_variants:
  "(currentMotionData v = Null \<longleftrightarrow> recordedData (store v) = [])
    \<and> (recordedData (store v) \<noteq> [] \<and> cursor_in_bounds (store v) \<longrightarrow>
          currentMotionData v = Value (recordedData (store v) ! nat (currentDataIndex (store v))))
    \<and> (getCurrentMotionData s = Null \<longleftrightarrow> recordedData_app s = [] \<or> \<not> isPlaying s)
    \<and> (recordedData_app s \<noteq> [] \<and> isPlaying s
          \<and> 0 \<le> currentFrameIndex s \<and> currentFrameIndex s < int (length (recordedData_app s)) \<longrightarrow>
          getCurrentMotionData s = Value (recordedData_app s ! nat (currentFrameIndex s)))"
proof -
  have vs_null: "currentMotionData v = Null \<longleftrightarrow> recordedData (store v) = []"
    by (simp add: currentMotionData_def js_index_def)
  have vs_frame: "recordedData (store v) \<noteq> [] \<and> cursor_in_bounds (store v) \<longrightarrow>
      currentMotionData v = Value (recordedData (store v) ! nat (currentDataIndex (store v)))"
  proof
    assume a: "recordedData (store v) \<noteq> [] \<and> cursor_in_bounds (store v)"
    then have len: "0 < length (recordedData (store v))"
      by simp
    from a have lo: "0 \<le> currentDataIndex (store v)"
      by (simp add: cursor_in_bounds_def)
    from a have hi: "currentDataIndex (store v) < int (length (recordedData (store v)))"
      by (cases "recordedData (store v)") (simp_all add: cursor_in_bounds_def)
    from lo hi have "js_rem (currentDataIndex (store v)) (int (length (recordedData (store v))))
        = currentDataIndex (store v)"
      by (rule js_rem_in_range)
    then show "currentMotionData v
        = Value (recordedData (store v) ! nat (currentDataIndex (store v)))"
      using len lo hi by (simp add: currentMotionData_def js_index_def)
  qed
  have app_null: "getCurrentMotionData s = Null \<longleftrightarrow> recordedData_app s = [] \<or> \<not> isPlaying s"
    by (simp add: getCurrentMotionData_def js_index_def)
  have app_frame: "recordedData_app s \<noteq> [] \<and> isPlaying s
          \<and> 0 \<le> currentFrameIndex s \<and> currentFrameIndex s < int (length (recordedData_app s)) \<longrightarrow>
          getCurrentMotionData s = Value (recordedData_app s ! nat (currentFrameIndex s))"
    by (simp add: getCurrentMotionData_def js_index_def)
  from vs_null vs_frame app_null app_frame show ?thesis by blast
qed

lemma app_playing_one_eval:
  "app_playing_one = \<lparr>recordedData_app = [sample_a], isPlaying = True, currentFrameIndex = 0,
     isRecording_app = False, playbackIntervalRef = Some 1, intervals = [(1, [sample_a])]\<rparr>"
  by (simp add: app_playing_one_def app_idle_with_data_def initial_app_def
    handleStartPlayback_def clearPlaybackInterval_def fresh_interval_id_def Let_def)

theorem currentFrame_variants_witness:
  "recordedData (store screen_at_last) \<noteq> [] \<and> cursor_in_bounds (store screen_at_last)
    \<and> currentMotionData screen_at_last = Value sample_b
    \<and> recordedData_app app_playing_one \<noteq> [] \<and> isPlaying app_playing_one
    \<and> 0 \<le> currentFrameIndex app_playing_one
    \<and> currentFrameIndex app_playing_one < int (length (recordedData_app app_playing_one))
    \<and> getCurrentMotionData app_playing_one = Value sample_a"
proof -
  have vs: "recordedData (store screen_at_last) \<noteq> [] \<and> cursor_in_bounds (store screen_at_last)"
    by (simp add: screen_at_last_eval cursor_in_bounds_def)
  have vs_at: "recordedData (store screen_at_last) ! nat (currentDataIndex (store screen_at_last))
      = sample_b"
    by (simp add: screen_at_last_eval)
  have app: "recordedData_app app_playing_one \<noteq> [] \<and> isPlaying app_playing_one
    \<and> 0 \<le> currentFrameIndex app_playing_one
    \<and> currentFrameIndex app_playing_one < int (length (recordedData_app app_playing_one))"
    by (simp add: app_playing_one_eval)
  have app_at: "recordedData_app app_playing_one ! nat (currentFrameIndex app_playing_one)
      = sample_a"
    by (simp add: app_playing_one_eval)
  from currentFrame_variants [of screen_at_last app_playing_one]
  show ?thesis using vs vs_at app app_at by metis
qed

text \<open>
  C6, evaluated in App.js on a log of one sample while not playing: the log is not empty,
  and \<^verbatim>\<open>getCurrentMotionData()\<close> is \<^verbatim>\<open>null\<close>.
\<close>

theorem getCurrentMotionData_null_with_data:
  "recordedData_app app_idle_with_data = [sample_a]
    \<and> recordedData_app app_idle_with_data \<noteq> []
    \<and> currentFrameIndex app_idle_with_data = 0
    \<and> getCurrentMotionData app_idle_with_data = Null"
  by (simp add: app_idle_with_data_def initial_app_def getCurrentMotionData_def)

section \<open>Rotation fields of captured samples\<close>

text \<open>
  C8. In MotionTracker.js the rotation fields are set on the accelerometer sample (from the
  animated motion values) and are absent on the gyroscope sample, which the listener builds
  and never passes on. In MotionTracker.tsx both listeners set them: the accelerometer
  listener with \<^verbatim>\<open>rotationX = y\<close>, \<^verbatim>\<open>rotationY = x\<close>, \<^verbatim>\<open>rotationZ = z\<close>, the gyroscope listener
  with \<^verbatim>\<open>rotationX = x\<close>, \<^verbatim>\<open>rotationY = y\<close>, \<^verbatim>\<open>rotationZ = z\<close>; each passes its sample on
  exactly while recording.
\<close>

theorem rotation_fields_by_listener:
  "kind (gyroscope_dataPoint_js now data) = gyroscope
    \<and> rotationX (gyroscope_dataPoint_js now data) = None
    \<and> rotationY (gyroscope_dataPoint_js now data) = None
    \<and> rotationZ (gyroscope_dataPoint_js now data) = None
    \<and> gyroscopeSub_js recording now data = None
    \<and> kind (accelerometer_dataPoint_js now motion data) = accelerometer
    \<and> rotationX (accelerometer_dataPoint_js now motion data) = Some (my motion)
    \<and> rotationY (accelerometer_dataPoint_js now motion data) = Some (mx motion)
    \<and> rotationZ (accelerometer_dataPoint_js now motion data) = Some (mz motion)
    \<and> accelerometerSub_js True now motion data = Some (accelerometer_dataPoint_js now motion data)
    \<and> accelerometerSub_js False now motion data = None
    \<and> kind (accel_dataPoint_tsx now data) = accelerometer
    \<and> rotationX (accel_dataPoint_tsx now data) = Some (my data)
    \<and> rotationY (accel_dataPoint_tsx now data) = Some (mx data)
    \<and> rotationZ (accel_dataPoint_tsx now data) = Some (mz data)
    \<and> accelListener_tsx True now data = Some (accel_dataPoint_tsx now data)
    \<and> accelListener_tsx False now data = None
    \<and> kind (gyro_dataPoint_tsx now data) = gyroscope
    \<and> rotationX (gyro_dataPoint_tsx now data) = Some (mx data)
    \<and> rotationY (gyro_dataPoint_tsx now data) = Some (my data)
    \<and> rotationZ (gyro_dataPoint_tsx now data) = Some (mz data)
    \<and> gyroListener_tsx True now data = Some (gyro_dataPoint_tsx now data)
    \<and> gyroListener_tsx False now data = None"
  by (simp add: gyroscope_dataPoint_js_def gyroscopeSub_js_def accelerometer_dataPoint_js_def
    accelerometerSub_js_def accel_dataPoint_tsx_def accelListener_tsx_def gyro_dataPoint_tsx_def
    gyroListener_tsx_def)

text \<open>
  C8, evaluated in MotionTracker.tsx: while recording, the gyroscope listener passes on a
  gyroscope sample whose three rotation fields are present.
\<close>

theorem gyroListener_tsx_sets_rotation:
  "gyroListener_tsx True 1000 reading
     = Some \<lparr>kind = gyroscope, timestamp = 1000, axis_x = 1, axis_y = 2, axis_z = 3,
         rotationX = Some 1, rotationY = Some 2, rotationZ = Some 3\<rparr>
    \<and> rotationX (gyro_dataPoint_tsx 1000 reading) \<noteq> None"
  by (simp add: gyroListener_tsx_def gyro_dataPoint_tsx_def reading_def)

end
